theory Spec2Isabelle
  imports Main "HOL-Library.Word" "HOL-Library.DAList"
begin

section \<open>Data model of the endpoint\<close>

text \<open>
  A connection handle is a shared pointer compared by address. The handlers are
  invoked by the transport with the handle of a live connection, so a handle is a
  plain identity here; the one place where the source holds a possibly null handle
  (the connection of a ServiceProviderInfo that was created locally and not yet
  advertised by a peer) is an option. Host callbacks, service clients and call
  handles are pointers as well and are identified by a number.
\<close>

type_synonym connection_handle = nat

text \<open>
  The YAML tree of the configuration library: a null node, a scalar (its text), a
  sequence or a mapping. A lookup on a mapping that misses yields no node.
\<close>

datatype yaml = YNull | YScalar string | YSeq "yaml list" | YMap "(string \<times> yaml) list"

text \<open>
  Every exception that can leave the modelled code: \<open>OutOfRange\<close> is thrown by
  \<^verbatim>\<open>unordered_map::at\<close>, \<open>NullPointerDereference\<close> stands for the crash of
  dereferencing a null pointer, \<open>BadConnection\<close> is thrown by
  \<^verbatim>\<open>get_con_from_hdl\<close> on an empty handle, the remaining three by the YAML
  library. The two exceptions of the dynamic-data to JSON conversion are a type of
  their own: the handlers catch both.
\<close>

datatype exception =
    OutOfRange
  | NullPointerDereference
  | BadConnection
  | InvalidNode
  | BadConversion
  | BadSubscript

datatype conversion_error = UnsupportedType | JsonException

datatype level = DEBUG | INFO | WARN | ERROR

text \<open>
  Modelled from the spec: the record types below are declared in Endpoint.hpp, which
  is not among the sources; their fields are the ones Endpoint.cpp reads and writes
  and section 3 of the specification lists. Field names carry a prefix where two
  structs of the source share a name.
\<close>

record TopicSubscribeInfo =
  sub_type :: string
  sub_callback :: nat
  blacklist :: "connection_handle set"

record TopicPublishInfo =
  pub_type :: string
  listeners :: "(connection_handle, string set) alist"

record ClientProxyInfo =
  cp_req_type :: string
  cp_reply_type :: string
  cp_callback :: nat
  cp_configuration :: yaml

record ServiceProviderInfo =
  sp_req_type :: string
  sp_reply_type :: string
  sp_connection_handle :: "connection_handle option"
  sp_configuration :: yaml

record ServiceRequestInfo =
  client :: nat
  call_handle :: nat

text \<open>The call handle of an inbound service request, as Endpoint.cpp declares it.\<close>

record CallHandle =
  service_name :: string
  request_type :: string
  reply_type :: string
  call_id :: string
  connection_handle :: connection_handle

text \<open>
  The state of an Endpoint: the startup-message log, the five routing tables and the
  call-id counter, a \<^verbatim>\<open>std::size_t\<close> (64 bits on the targets of the bridge). The
  Client derives from Endpoint; the two fields of Client.cpp that its host entry
  points read and write are part of the state: the connection the client holds
  (\<^verbatim>\<open>_tls_connection\<close> or \<^verbatim>\<open>_tcp_connection\<close>, the one selected by
  \<^verbatim>\<open>_use_security\<close>; null until the first \<^verbatim>\<open>spin_once\<close>) and the flag
  \<^verbatim>\<open>_has_spun_once\<close>.
\<close>

record endpoint =
  startup_messages :: "string list"
  topic_subscribe_info :: "string \<rightharpoonup> TopicSubscribeInfo"
  topic_publish_info :: "string \<rightharpoonup> TopicPublishInfo"
  client_proxy_info :: "string \<rightharpoonup> ClientProxyInfo"
  service_provider_info :: "string \<rightharpoonup> ServiceProviderInfo"
  service_request_info :: "string \<rightharpoonup> ServiceRequestInfo"
  next_service_call_id :: "64 word"
  current_connection :: "connection_handle option"
  has_spun_once :: bool

text \<open>
  What a handler does to the outside world, in order: a line written to the logger
  (only its level is kept), a frame handed to the transport for a connection, a type
  registered with the encoding, and the three kinds of host callbacks.
\<close>

datatype 'd event =
    Log level
  | Send connection_handle string
  | AddType string
  | SubscriptionCallback nat 'd
  | RequestCallback nat 'd CallHandle
  | ClientReceiveResponse nat nat 'd

text \<open>
  The collaborators of the endpoint are parameters of the model: the encoding (pure
  encoders that return the empty string when they refuse a value), the transport
  (\<open>send_fails h p\<close> tells whether sending \<open>p\<close> on \<open>h\<close> reports an error
  code) and the conversion of a dynamic value to JSON, which may throw.
\<close>

record 'd encoding =
  encode_publication_msg :: "string \<Rightarrow> string \<Rightarrow> string \<Rightarrow> 'd \<Rightarrow> string"
  encode_subscribe_msg :: "string \<Rightarrow> string \<Rightarrow> string \<Rightarrow> yaml \<Rightarrow> string"
  encode_advertise_msg :: "string \<Rightarrow> string \<Rightarrow> string \<Rightarrow> yaml \<Rightarrow> string"
  encode_advertise_service_msg :: "string \<Rightarrow> string \<Rightarrow> string \<Rightarrow> string \<Rightarrow> yaml \<Rightarrow> string"
  encode_call_service_msg :: "string \<Rightarrow> string \<Rightarrow> 'd \<Rightarrow> string \<Rightarrow> yaml \<Rightarrow> string"
  encode_service_response_msg :: "string \<Rightarrow> string \<Rightarrow> string \<Rightarrow> 'd \<Rightarrow> bool \<Rightarrow> string"

type_synonym transport = "connection_handle \<Rightarrow> string \<Rightarrow> bool"

type_synonym 'd converter = "'d \<Rightarrow> conversion_error + string"

section \<open>Decimal rendering of the call id\<close>

text \<open>
  \<^verbatim>\<open>std::to_string\<close> of an unsigned value: its decimal digits, most significant
  first. \<open>digit_char\<close> is only applied to a digit below ten.
\<close>

definition digit_char :: "nat \<Rightarrow> char" where
  "digit_char d = ''0123456789'' ! d"

fun to_string :: "nat \<Rightarrow> string" where
  "to_string n = (if n < 10 then [digit_char n] else to_string (n div 10) @ [digit_char (n mod 10)])"

declare to_string.simps [simp del]

text \<open>Reading a decimal string back; used to state that \<open>to_string\<close> loses nothing.\<close>

definition digit_val :: "char \<Rightarrow> nat" where
  "digit_val c = of_char c - 48"

definition of_string :: "string \<Rightarrow> nat" where
  "of_string s = foldl (\<lambda>a c. 10 * a + digit_val c) 0 s"

section \<open>The endpoint's operations\<close>

text \<open>
  The constructor: empty tables, the counter starts at 1; a new client holds no
  connection and has not spun.
\<close>

definition Endpoint :: endpoint where
  "Endpoint = \<lparr> startup_messages = [], topic_subscribe_info = Map.empty,
      topic_publish_info = Map.empty, client_proxy_info = Map.empty,
      service_provider_info = Map.empty, service_request_info = Map.empty,
      next_service_call_id = 1, current_connection = None, has_spun_once = False \<rparr>"

text \<open>
  \<^verbatim>\<open>get_con_from_hdl\<close> resolves a handle to its connection and throws on an empty
  one.
\<close>

definition get_con_from_hdl :: "connection_handle option \<Rightarrow> exception + connection_handle" where
  "get_con_from_hdl h = (case h of None \<Rightarrow> Inl BadConnection | Some c \<Rightarrow> Inr c)"

text \<open>
  The id string the next invocation of \<^verbatim>\<open>call_service\<close> takes (\<^verbatim>\<open>id_str\<close> in
  the source): the decimal rendering of the counter.
\<close>

definition allocated_id :: "endpoint \<Rightarrow> string" where
  "allocated_id e = to_string (unat (next_service_call_id e))"

text \<open>
  \<^verbatim>\<open>call_service\<close>. Under the mutex the id is taken from the counter, the counter is
  incremented and the ledger entry is stored; only then is the provider looked up
  with \<^verbatim>\<open>at\<close>, which throws when the service has no provider entry. The result is
  the exception that escapes (if any), the events and the state left behind.
\<close>

definition call_service ::
  "'d encoding \<Rightarrow> transport \<Rightarrow> string \<Rightarrow> 'd \<Rightarrow> nat \<Rightarrow> nat \<Rightarrow> endpoint
    \<Rightarrow> exception option \<times> 'd event list \<times> endpoint" where
  "call_service enc send_fails service request cl ch e =
    (let id_num = next_service_call_id e;
         e1 = e\<lparr>next_service_call_id := id_num + 1\<rparr>;
         id_str = to_string (unat id_num);
         e2 = e1\<lparr>service_request_info :=
                (service_request_info e1)(id_str \<mapsto> \<lparr>client = cl, call_handle = ch\<rparr>)\<rparr>
     in case service_provider_info e2 service of
          None \<Rightarrow> (Some OutOfRange, [], e2)
        | Some provider_info \<Rightarrow>
            (let payload = encode_call_service_msg enc service (sp_req_type provider_info)
                             request id_str (sp_configuration provider_info)
             in if payload = [] then (None, [], e2)
                else (case get_con_from_hdl (sp_connection_handle provider_info) of
                        Inl ex \<Rightarrow> (Some ex, [], e2)
                      | Inr con \<Rightarrow>
                          (None,
                           [Send con payload,
                            Log (if send_fails con payload then ERROR else DEBUG)],
                           e2))))"

text \<open>
  \<^verbatim>\<open>subscribe\<close>: registers the type, appends the subscription frame to the startup
  log and stores the expected type and the callback in the (found or created) entry;
  the blacklist of an existing entry is kept.
\<close>

definition subscribe ::
  "'d encoding \<Rightarrow> string \<Rightarrow> string \<Rightarrow> nat \<Rightarrow> yaml \<Rightarrow> endpoint \<Rightarrow> bool \<times> 'd event list \<times> endpoint" where
  "subscribe enc topic_name message_type callback configuration e =
    (let info = (case topic_subscribe_info e topic_name of
                   None \<Rightarrow> \<lparr>sub_type = [], sub_callback = 0, blacklist = {}\<rparr>
                 | Some i \<Rightarrow> i)
     in (True,
         [Log DEBUG, AddType message_type],
         e\<lparr>startup_messages := startup_messages e @
              [encode_subscribe_msg enc topic_name message_type [] configuration],
           topic_subscribe_info := (topic_subscribe_info e)
              (topic_name \<mapsto> info\<lparr>sub_type := message_type, sub_callback := callback\<rparr>)\<rparr>))"

text \<open>The two overloads of \<^verbatim>\<open>create_client_proxy\<close>: with and without a reply type.\<close>

definition create_client_proxy ::
  "'d encoding \<Rightarrow> string \<Rightarrow> string \<Rightarrow> string \<Rightarrow> nat \<Rightarrow> yaml \<Rightarrow> endpoint
    \<Rightarrow> bool \<times> 'd event list \<times> endpoint" where
  "create_client_proxy enc service req reply callback configuration e =
    (let info = (case client_proxy_info e service of
                   None \<Rightarrow> \<lparr>cp_req_type = [], cp_reply_type = [], cp_callback = 0,
                              cp_configuration = YNull\<rparr>
                 | Some i \<Rightarrow> i)
     in (True,
         [Log DEBUG, AddType req, AddType reply],
         e\<lparr>client_proxy_info := (client_proxy_info e)
              (service \<mapsto> info\<lparr>cp_req_type := req, cp_reply_type := reply,
                 cp_callback := callback, cp_configuration := configuration\<rparr>),
           startup_messages := startup_messages e @
              [encode_advertise_service_msg enc service req reply [] configuration]\<rparr>))"

definition create_client_proxy_service_type ::
  "string \<Rightarrow> string \<Rightarrow> nat \<Rightarrow> yaml \<Rightarrow> endpoint \<Rightarrow> bool \<times> 'd event list \<times> endpoint" where
  "create_client_proxy_service_type service service_type callback configuration e =
    (let info = (case client_proxy_info e service of
                   None \<Rightarrow> \<lparr>cp_req_type = [], cp_reply_type = [], cp_callback = 0,
                              cp_configuration = YNull\<rparr>
                 | Some i \<Rightarrow> i)
     in (True,
         [Log DEBUG, AddType service_type],
         e\<lparr>client_proxy_info := (client_proxy_info e)
              (service \<mapsto> info\<lparr>cp_req_type := service_type, cp_callback := callback,
                 cp_configuration := configuration\<rparr>)\<rparr>))"

text \<open>
  The two overloads of \<^verbatim>\<open>create_service_proxy\<close>. A new entry has no connection
  until a peer advertises the service.
\<close>

definition create_service_proxy_service_type ::
  "string \<Rightarrow> string \<Rightarrow> yaml \<Rightarrow> endpoint \<Rightarrow> 'd event list \<times> endpoint" where
  "create_service_proxy_service_type service service_type configuration e =
    (let info = (case service_provider_info e service of
                   None \<Rightarrow> \<lparr>sp_req_type = [], sp_reply_type = [],
                              sp_connection_handle = None, sp_configuration = YNull\<rparr>
                 | Some i \<Rightarrow> i)
     in ([Log DEBUG],
         e\<lparr>service_provider_info := (service_provider_info e)
              (service \<mapsto> info\<lparr>sp_req_type := service_type,
                 sp_configuration := configuration\<rparr>)\<rparr>))"

definition create_service_proxy ::
  "string \<Rightarrow> string \<Rightarrow> string \<Rightarrow> yaml \<Rightarrow> endpoint \<Rightarrow> 'd event list \<times> endpoint" where
  "create_service_proxy service req reply configuration e =
    (let info = (case service_provider_info e service of
                   None \<Rightarrow> \<lparr>sp_req_type = [], sp_reply_type = [],
                              sp_connection_handle = None, sp_configuration = YNull\<rparr>
                 | Some i \<Rightarrow> i)
     in ([Log DEBUG, AddType req, AddType reply],
         e\<lparr>service_provider_info := (service_provider_info e)
              (service \<mapsto> info\<lparr>sp_req_type := req, sp_reply_type := reply,
                 sp_configuration := configuration\<rparr>)\<rparr>))"

text \<open>
  \<^verbatim>\<open>startup_advertisement\<close>: finds or creates the publish entry, sets its type and
  appends the advertise frame to the startup log.
\<close>

definition startup_advertisement ::
  "'d encoding \<Rightarrow> string \<Rightarrow> string \<Rightarrow> string \<Rightarrow> yaml \<Rightarrow> endpoint \<Rightarrow> endpoint" where
  "startup_advertisement enc topic message_type ident configuration e =
    (let info = (case topic_publish_info e topic of
                   None \<Rightarrow> \<lparr>pub_type = [], listeners = DAList.empty\<rparr>
                 | Some i \<Rightarrow> i)
     in e\<lparr>topic_publish_info := (topic_publish_info e)(topic \<mapsto> info\<lparr>pub_type := message_type\<rparr>),
          startup_messages := startup_messages e @
            [encode_advertise_msg enc topic message_type ident configuration]\<rparr>)"

text \<open>
  \<^verbatim>\<open>publish\<close>. The body of its loop, for one listener connection: the message is
  encoded, sent only when the payload is not empty, and the outcome is logged (an
  error when the send reported one, an information line otherwise, also when nothing
  was sent). The TLS and the TCP branch of the source do the same on their endpoint.
\<close>

definition publish_listener ::
  "'d encoding \<Rightarrow> transport \<Rightarrow> string \<Rightarrow> TopicPublishInfo \<Rightarrow> 'd \<Rightarrow> connection_handle
    \<Rightarrow> 'd event list" where
  "publish_listener enc send_fails topic info message h =
    (let payload = encode_publication_msg enc topic (pub_type info) [] message;
         ec = (payload \<noteq> [] \<and> send_fails h payload)
     in (if payload \<noteq> [] then [Send h payload] else []) @
        [Log (if ec then ERROR else INFO)])"

text \<open>
  The entry is read with \<^verbatim>\<open>at\<close>, which throws for a topic without one. The loop
  visits every entry of the listener map once, in the container's order.
\<close>

definition publish ::
  "'d encoding \<Rightarrow> transport \<Rightarrow> string \<Rightarrow> 'd \<Rightarrow> endpoint \<Rightarrow> (exception + bool) \<times> 'd event list" where
  "publish enc send_fails topic message e =
    (case topic_publish_info e topic of
       None \<Rightarrow> (Inl OutOfRange, [])
     | Some info \<Rightarrow>
         if DAList.impl_of (listeners info) = [] then (Inr True, [])
         else (Inr True,
               concat (map (\<lambda>v_handle. publish_listener enc send_fails topic info message (fst v_handle))
                         (DAList.impl_of (listeners info)))))"

text \<open>
  \<^verbatim>\<open>receive_response\<close>: the host's reply to an inbound call, sent on the connection
  pinned in the call handle.
\<close>

definition receive_response ::
  "'d encoding \<Rightarrow> transport \<Rightarrow> CallHandle \<Rightarrow> 'd \<Rightarrow> 'd event list" where
  "receive_response enc send_fails ch response =
    (let payload = encode_service_response_msg enc (service_name ch) (reply_type ch)
                     (call_id ch) response True;
         ec = (payload \<noteq> [] \<and> send_fails (connection_handle ch) payload)
     in (if payload \<noteq> [] then [Send (connection_handle ch) payload] else []) @
        [Log (if ec then ERROR else DEBUG)])"

subsection \<open>Inbound dispatch\<close>

definition receive_topic_advertisement_ws ::
  "string \<Rightarrow> string \<Rightarrow> string \<Rightarrow> connection_handle \<Rightarrow> endpoint \<Rightarrow> 'd event list \<times> endpoint" where
  "receive_topic_advertisement_ws topic_name message_type ident h e =
    (case topic_subscribe_info e topic_name of
       Some info \<Rightarrow>
         if message_type \<noteq> sub_type info
         then ([Log WARN],
               e\<lparr>topic_subscribe_info := (topic_subscribe_info e)
                    (topic_name \<mapsto> info\<lparr>blacklist := insert h (blacklist info)\<rparr>)\<rparr>)
         else ([Log INFO],
               e\<lparr>topic_subscribe_info := (topic_subscribe_info e)
                    (topic_name \<mapsto> info\<lparr>blacklist := blacklist info - {h}\<rparr>)\<rparr>)
     | None \<Rightarrow> ([Log WARN], e))"

definition receive_topic_unadvertisement_ws ::
  "string \<Rightarrow> string \<Rightarrow> connection_handle \<Rightarrow> endpoint \<Rightarrow> 'd event list \<times> endpoint" where
  "receive_topic_unadvertisement_ws topic_name ident h e = ([], e)"

definition receive_publication_ws ::
  "string \<Rightarrow> 'd \<Rightarrow> connection_handle \<Rightarrow> endpoint \<Rightarrow> 'd event list" where
  "receive_publication_ws topic_name message h e =
    (case topic_subscribe_info e topic_name of
       None \<Rightarrow> []
     | Some info \<Rightarrow>
         if h \<in> blacklist info then []
         else [SubscriptionCallback (sub_callback info) message])"

text \<open>
  \<^verbatim>\<open>receive_subscribe_request_ws\<close>. The type of the request is a pointer that may be
  null (\<open>None\<close>). \<^verbatim>\<open>insert\<close> creates a default entry when the topic has none and
  leaves the table as it is otherwise. For an existing entry the guard of the mismatch
  test checks the pointer, the debug line after it dereferences the pointer without a
  check.
\<close>

definition receive_subscribe_request_ws ::
  "string \<Rightarrow> string option \<Rightarrow> string \<Rightarrow> connection_handle \<Rightarrow> endpoint
    \<Rightarrow> exception option \<times> 'd event list \<times> endpoint" where
  "receive_subscribe_request_ws topic_name message_type ident h e =
    (let inserted = (topic_publish_info e topic_name = None);
         info = (case topic_publish_info e topic_name of
                   None \<Rightarrow> \<lparr>pub_type = [], listeners = DAList.empty\<rparr>
                 | Some i \<Rightarrow> i);
         added = e\<lparr>topic_publish_info := (topic_publish_info e)
                   (topic_name \<mapsto> info\<lparr>listeners :=
                      DAList.map_default h {ident} (insert ident) (listeners info)\<rparr>)\<rparr>
     in if inserted then (None, [Log WARN], added)
        else (case message_type of
                Some t \<Rightarrow>
                  if t \<noteq> pub_type info then (None, [Log ERROR], e)
                  else (None, [Log DEBUG], added)
              | None \<Rightarrow> (Some NullPointerDereference, [], e)))"

definition receive_unsubscribe_request_ws ::
  "string \<Rightarrow> string \<Rightarrow> connection_handle \<Rightarrow> endpoint \<Rightarrow> 'd event list \<times> endpoint" where
  "receive_unsubscribe_request_ws topic_name ident h e =
    (case topic_publish_info e topic_name of
       None \<Rightarrow> ([Log ERROR], e)
     | Some info \<Rightarrow>
         (case DAList.lookup (listeners info) h of
            None \<Rightarrow> ([], e)
          | Some ids \<Rightarrow>
              (let erased = e\<lparr>topic_publish_info := (topic_publish_info e)
                              (topic_name \<mapsto> info\<lparr>listeners := DAList.delete h (listeners info)\<rparr>)\<rparr>
               in if ident = [] then ([Log DEBUG], erased)
                  else if ids - {ident} = {} then ([Log DEBUG], erased)
                  else ([Log DEBUG],
                        e\<lparr>topic_publish_info := (topic_publish_info e)
                             (topic_name \<mapsto> info\<lparr>listeners :=
                                DAList.update h (ids - {ident}) (listeners info)\<rparr>)\<rparr>))))"

text \<open>
  \<^verbatim>\<open>receive_service_request_ws\<close>. The debug line converts the request to JSON inside
  the \<^verbatim>\<open>try\<close> block; both exceptions of the conversion are caught and logged, and
  the callback is then not reached.
\<close>

definition receive_service_request_ws ::
  "'d converter \<Rightarrow> string \<Rightarrow> 'd \<Rightarrow> string \<Rightarrow> connection_handle \<Rightarrow> endpoint \<Rightarrow> 'd event list" where
  "receive_service_request_ws convert service request ident h e =
    (case client_proxy_info e service of
       None \<Rightarrow> [Log ERROR]
     | Some info \<Rightarrow>
         (case convert request of
            Inl ex \<Rightarrow> [Log ERROR]
          | Inr json \<Rightarrow>
              [Log DEBUG,
               RequestCallback (cp_callback info) request
                 \<lparr>service_name = service, request_type = cp_req_type info,
                  reply_type = cp_reply_type info, call_id = ident,
                  connection_handle = h\<rparr>]))"

definition receive_service_advertisement_ws ::
  "string \<Rightarrow> string \<Rightarrow> string \<Rightarrow> connection_handle \<Rightarrow> endpoint \<Rightarrow> 'd event list \<times> endpoint" where
  "receive_service_advertisement_ws service req reply h e =
    ([Log DEBUG],
     e\<lparr>service_provider_info := (service_provider_info e)
          (service \<mapsto> \<lparr>sp_req_type = req, sp_reply_type = reply,
             sp_connection_handle = Some h, sp_configuration = YNull\<rparr>)\<rparr>)"

definition receive_service_unadvertisement_ws ::
  "string \<Rightarrow> connection_handle \<Rightarrow> endpoint \<Rightarrow> 'd event list \<times> endpoint" where
  "receive_service_unadvertisement_ws service h e =
    (case service_provider_info e service of
       None \<Rightarrow> ([Log WARN], e)
     | Some info \<Rightarrow>
         ([Log DEBUG],
          if sp_connection_handle info = Some h
          then e\<lparr>service_provider_info := (service_provider_info e)(service := None)\<rparr>
          else e))"

text \<open>
  \<^verbatim>\<open>receive_service_response_ws\<close>. An unknown id is logged as an error. For a known
  id the debug line converts the response to JSON inside the \<^verbatim>\<open>try\<close> block before
  the client is called; when the conversion throws, the handler logs the error and
  leaves, with the client not called and the entry not erased.
\<close>

definition receive_service_response_ws ::
  "'d converter \<Rightarrow> string \<Rightarrow> 'd \<Rightarrow> string \<Rightarrow> connection_handle \<Rightarrow> endpoint
    \<Rightarrow> 'd event list \<times> endpoint" where
  "receive_service_response_ws convert service response ident h e =
    (case service_request_info e ident of
       None \<Rightarrow> ([Log ERROR], e)
     | Some info \<Rightarrow>
         (case convert response of
            Inl ex \<Rightarrow> ([Log ERROR], e)
          | Inr json \<Rightarrow>
              ([Log DEBUG, ClientReceiveResponse (client info) (call_handle info) response],
               e\<lparr>service_request_info := (service_request_info e)(ident := None)\<rparr>)))"

subsection \<open>Connection events\<close>

text \<open>
  \<^verbatim>\<open>notify_connection_opened\<close> (the TLS and the TCP overload have the same body): the
  startup log is sent to the connection, front to back; the error codes are dropped.
\<close>

definition notify_connection_opened :: "connection_handle \<Rightarrow> endpoint \<Rightarrow> 'd event list" where
  "notify_connection_opened h e = Log DEBUG # map (Send h) (startup_messages e)"

text \<open>
  \<^verbatim>\<open>notify_connection_closed\<close>: three sweeps over the subscribe, the publish and the
  provider table. The provider sweep first collects the names whose connection is the
  closed one and then erases each of them. The call ledger is not touched.
\<close>

definition notify_connection_closed ::
  "connection_handle \<Rightarrow> endpoint \<Rightarrow> 'd event list \<times> endpoint" where
  "notify_connection_closed h e =
    ([Log DEBUG],
     e\<lparr>topic_subscribe_info :=
          (\<lambda>t. map_option (\<lambda>info. info\<lparr>blacklist := blacklist info - {h}\<rparr>)
                  (topic_subscribe_info e t)),
       topic_publish_info :=
          (\<lambda>t. map_option (\<lambda>info. info\<lparr>listeners := DAList.delete h (listeners info)\<rparr>)
                  (topic_publish_info e t)),
       service_provider_info :=
          (\<lambda>s. case service_provider_info e s of
                  None \<Rightarrow> None
                | Some info \<Rightarrow>
                    if sp_connection_handle info = Some h then None else Some info)\<rparr>)"

subsection \<open>Host entry points of the client\<close>

text \<open>
  \<^verbatim>\<open>Client::spin_once\<close>. What it reads from outside are inputs: whether the state of
  the connection it holds is closed (\<open>closed\<close>, read only when it holds one), whether
  more than two seconds have passed since the last attempt (\<open>elapsed\<close>), and the
  connection \<^verbatim>\<open>get_connection\<close> returns (\<open>fresh\<close>: null together with an error
  code, or a new connection, which is then dialled). The new connection is stored in
  the client before it has opened. The result is the returned flag (the client holds
  a connection), the events and the state.
\<close>

definition spin_once ::
  "bool \<Rightarrow> bool \<Rightarrow> connection_handle option \<Rightarrow> endpoint \<Rightarrow> bool \<times> 'd event list \<times> endpoint" where
  "spin_once closed elapsed fresh e =
    (let attempt_reconnect = ((current_connection e = None \<or> closed) \<and> elapsed)
     in if \<not> has_spun_once e \<or> attempt_reconnect
        then (fresh \<noteq> None,
              [Log (if fresh = None then ERROR else DEBUG)],
              e\<lparr>has_spun_once := True, current_connection := fresh\<rparr>)
        else (current_connection e \<noteq> None, [], e))"

text \<open>
  \<^verbatim>\<open>Client::runtime_advertisement\<close>: when the client holds a connection, the
  advertise frame is sent on it; the only test is that the pointer is not null.
\<close>

definition runtime_advertisement ::
  "'d encoding \<Rightarrow> string \<Rightarrow> string \<Rightarrow> string \<Rightarrow> yaml \<Rightarrow> endpoint \<Rightarrow> 'd event list" where
  "runtime_advertisement enc topic message_type ident configuration e =
    (case current_connection e of
       Some con \<Rightarrow> [Send con (encode_advertise_msg enc topic message_type ident configuration)]
     | None \<Rightarrow> [])"

section \<open>Configuration\<close>

text \<open>
  The conversions of the YAML library the configuration code uses. Indexing with a
  string key (the \<^verbatim>\<open>const\<close> subscript) finds the first entry of a mapping, yields
  no node on a null node or a sequence and throws on a scalar. \<^verbatim>\<open>as<T>()\<close> throws
  a bad-conversion exception when the node does not convert; \<^verbatim>\<open>as<T>(fallback)\<close>
  returns the fallback instead. The reading of a scalar's text as a C++
  \<^verbatim>\<open>int\<close> is a parameter \<open>conv\<close> of the model.
\<close>

definition yaml_index :: "yaml \<Rightarrow> string \<Rightarrow> exception + yaml option" where
  "yaml_index node key =
    (case node of
       YMap entries \<Rightarrow> Inr (map_of entries key)
     | YScalar s \<Rightarrow> Inl BadSubscript
     | YSeq xs \<Rightarrow> Inr None
     | YNull \<Rightarrow> Inr None)"

definition as_int :: "(string \<Rightarrow> 32 word option) \<Rightarrow> yaml \<Rightarrow> exception + 32 word" where
  "as_int conv node =
    (case node of
       YScalar s \<Rightarrow> (case conv s of Some i \<Rightarrow> Inr i | None \<Rightarrow> Inl BadConversion)
     | _ \<Rightarrow> Inl BadConversion)"

definition as_string :: "yaml \<Rightarrow> exception + string" where
  "as_string node = (case node of YScalar s \<Rightarrow> Inr s | _ \<Rightarrow> Inl BadConversion)"

definition as_string_or :: "string \<Rightarrow> yaml \<Rightarrow> string" where
  "as_string_or fallback node = (case node of YScalar s \<Rightarrow> s | _ \<Rightarrow> fallback)"

text \<open>
  Modelled from the spec: the key and value constants are declared in Endpoint.hpp,
  which is not among the sources; section 6 of the specification names the keys
  \<open>port\<close>, \<open>host\<close> and \<open>encoding\<close> and the value \<open>json\<close>.
\<close>

definition YamlPortKey :: string where "YamlPortKey = ''port''"
definition YamlHostKey :: string where "YamlHostKey = ''host''"
definition YamlEncodingKey :: string where "YamlEncodingKey = ''encoding''"
definition YamlEncoding_Json :: string where "YamlEncoding_Json = ''json''"

text \<open>The constants that Client.cpp declares.\<close>

definition DefaultHostname :: string where "DefaultHostname = ''localhost''"
definition YamlAuthKey :: string where "YamlAuthKey = ''authentication''"
definition YamlClientTokenKey :: string where "YamlClientTokenKey = ''token''"

text \<open>
  \<^verbatim>\<open>Endpoint::parse_port\<close>. A missing key is logged and gives \<open>-1\<close>. The handler of
  the \<^verbatim>\<open>try\<close> block catches \<^verbatim>\<open>YAML::InvalidNode\<close> only; any other exception of
  the conversion leaves the function. The result is the returned port or the escaping
  exception, with the levels of the lines logged.
\<close>

definition parse_port ::
  "(string \<Rightarrow> 32 word option) \<Rightarrow> yaml \<Rightarrow> (exception + 32 word) \<times> level list" where
  "parse_port conv configuration =
    (case yaml_index configuration YamlPortKey of
       Inl ex \<Rightarrow> (Inl ex, [])
     | Inr None \<Rightarrow> (Inr (- 1), [ERROR])
     | Inr (Some port_node) \<Rightarrow>
         (case as_int conv port_node of
            Inr port \<Rightarrow> (Inr port, [DEBUG])
          | Inl InvalidNode \<Rightarrow> (Inr (- 1), [ERROR])
          | Inl ex \<Rightarrow> (Inl ex, [])))"

definition parse_hostname :: "yaml \<Rightarrow> exception + string" where
  "parse_hostname configuration =
    (case yaml_index configuration YamlHostKey of
       Inl ex \<Rightarrow> Inl ex
     | Inr None \<Rightarrow> Inr DefaultHostname
     | Inr (Some host_node) \<Rightarrow> Inr (as_string_or DefaultHostname host_node))"

text \<open>
  \<^verbatim>\<open>Client::_load_auth_config\<close>: the token to store, if the node has one.
\<close>

definition load_auth_config :: "yaml \<Rightarrow> (exception + string option) \<times> level list" where
  "load_auth_config auth_node =
    (case yaml_index auth_node YamlClientTokenKey of
       Inl ex \<Rightarrow> (Inl ex, [])
     | Inr None \<Rightarrow> (Inr None, [])
     | Inr (Some token_node) \<Rightarrow>
         (case as_string token_node of
            Inl ex \<Rightarrow> (Inl ex, [DEBUG])
          | Inr token \<Rightarrow> (Inr (Some token), [DEBUG])))"

text \<open>
  What a configured client holds: the host, the port as the 16-bit value handed to
  \<^verbatim>\<open>configure_client\<close>, and the token.
\<close>

record client_endpoint =
  hostname :: string
  port16 :: "16 word"
  jwt_token :: "string option"

text \<open>
  \<^verbatim>\<open>Client::configure_tcp_endpoint\<close>. It returns a pointer to the client, or the
  null pointer (\<open>None\<close>) for a negative port and when \<^verbatim>\<open>configure_client\<close> fails.
  \<^verbatim>\<open>configure_client\<close> sets up the TLS context and starts the client; whether it
  succeeds depends on the certificate stores of the machine and is the parameter
  \<open>configure_client\<close>.
\<close>

definition configure_tcp_endpoint ::
  "(string \<Rightarrow> 32 word option) \<Rightarrow> (string \<Rightarrow> 16 word \<Rightarrow> string list \<Rightarrow> bool) \<Rightarrow> yaml
    \<Rightarrow> (exception + client_endpoint option) \<times> level list" where
  "configure_tcp_endpoint conv configure_client configuration =
    (case parse_port conv configuration of
       (Inl ex, logs) \<Rightarrow> (Inl ex, logs)
     | (Inr port, logs) \<Rightarrow>
         if port <s 0 then (Inr None, logs)
         else (case parse_hostname configuration of
                 Inl ex \<Rightarrow> (Inl ex, logs)
               | Inr host \<Rightarrow>
                   (case yaml_index configuration YamlAuthKey of
                      Inl ex \<Rightarrow> (Inl ex, logs)
                    | Inr auth_node \<Rightarrow>
                        (case (case auth_node of
                                 None \<Rightarrow> (Inr None, [])
                               | Some n \<Rightarrow> load_auth_config n) of
                           (Inl ex, logs') \<Rightarrow> (Inl ex, logs @ logs')
                         | (Inr token, logs') \<Rightarrow>
                             if \<not> configure_client host (ucast port) []
                             then (Inr None, logs @ logs' @ [ERROR])
                             else (Inr (Some \<lparr>hostname = host, port16 = ucast port,
                                               jwt_token = token\<rparr>),
                                   logs @ logs' @ [INFO])))))"

text \<open>
  \<^verbatim>\<open>std::make_shared<T>(args)\<close> allocates a new object built from its arguments and
  returns the pointer that owns it; the pointer it returns is never null.
\<close>

definition make_shared :: "'a \<Rightarrow> 'a option" where
  "make_shared x = Some x"

text \<open>ASCII \<^verbatim>\<open>tolower\<close>, applied to every character of the encoding name.\<close>

definition tolower :: "char \<Rightarrow> char" where
  "tolower c =
    (case map_of (zip ''ABCDEFGHIJKLMNOPQRSTUVWXYZ'' ''abcdefghijklmnopqrstuvwxyz'') c of
       None \<Rightarrow> c
     | Some l \<Rightarrow> l)"

text \<open>
  \<^verbatim>\<open>Endpoint::configure\<close>. \<^verbatim>\<open>configure_tcp_endpoint\<close> and
  \<^verbatim>\<open>configure_tls_endpoint\<close> are virtual and given by the subclass; they are
  parameters, as is the outcome of \<^verbatim>\<open>make_json_encoding\<close> (\<open>encoding_made\<close>: the
  factory returned an encoding). The pointer the subclass returns is passed to
  \<^verbatim>\<open>std::make_shared\<close>, and \<open>success\<close> tests the shared pointer made from it.
\<close>

definition configure ::
  "(yaml \<Rightarrow> (exception + 'p option) \<times> level list) \<Rightarrow>
   (yaml \<Rightarrow> (exception + 'q option) \<times> level list) \<Rightarrow> bool \<Rightarrow> yaml
    \<Rightarrow> (exception + bool) \<times> level list" where
  "configure tcp_configure tls_configure encoding_made configuration =
    (case yaml_index configuration YamlEncodingKey of
       Inl ex \<Rightarrow> (Inl ex, [])
     | Inr encode_node \<Rightarrow>
         if (case encode_node of
               None \<Rightarrow> False
             | Some n \<Rightarrow> map tolower (as_string_or [] n) \<noteq> YamlEncoding_Json)
         then (Inr False, [ERROR])
         else if \<not> encoding_made then (Inr False, [DEBUG, ERROR])
         else (case yaml_index configuration ''security'' of
                 Inl ex \<Rightarrow> (Inl ex, [DEBUG])
               | Inr security_node \<Rightarrow>
                   (case (case security_node of
                            None \<Rightarrow> Inr False
                          | Some n \<Rightarrow> map_sum (\<lambda>ex. ex) (\<lambda>s. s = ''none'') (as_string n)) of
                      Inl ex \<Rightarrow> (Inl ex, [DEBUG])
                    | Inr True \<Rightarrow>
                        (case tcp_configure configuration of
                           (Inl ex, logs) \<Rightarrow> (Inl ex, [DEBUG, INFO] @ logs)
                         | (Inr p, logs) \<Rightarrow>
                             (let tcp_endpoint = make_shared p;
                                  success = (tcp_endpoint \<noteq> None)
                              in (Inr success,
                                  [DEBUG, INFO] @ logs @ (if success then [INFO] else []))))
                    | Inr False \<Rightarrow>
                        (case tls_configure configuration of
                           (Inl ex, logs) \<Rightarrow> (Inl ex, [DEBUG, INFO] @ logs)
                         | (Inr p, logs) \<Rightarrow>
                             (let tls_endpoint = make_shared p;
                                  success = (tls_endpoint \<noteq> None)
                              in (Inr success,
                                  [DEBUG, INFO] @ logs @ (if success then [INFO] else [])))))))"

text \<open>
  A conversion that reads decimal literals with an optional minus sign and refuses
  every other text; it stands for the library's conversion in the closed examples.
\<close>

definition decimal_int :: "string \<Rightarrow> 32 word option" where
  "decimal_int s =
    (case s of
       [] \<Rightarrow> None
     | c # r \<Rightarrow>
         if c = CHR ''-''
         then (if r \<noteq> [] \<and> list_all (\<lambda>d. d \<in> set ''0123456789'') r \<and> of_string r \<le> 2 ^ 31
               then Some (- word_of_nat (of_string r)) else None)
         else (if list_all (\<lambda>d. d \<in> set ''0123456789'') s \<and> of_string s < 2 ^ 31
               then Some (word_of_nat (of_string s)) else None))"

section \<open>Runs of an endpoint\<close>

text \<open>
  One constructor per entry point of Endpoint.cpp that reads or writes the state (the
  calls of the host and the events of the transport, which the handlers of the client
  forward to these methods), and one for each of the two host entry points of
  Client.cpp, \<^verbatim>\<open>spin_once\<close> and \<^verbatim>\<open>runtime_advertisement\<close>. \<open>step\<close> dispatches to the
  operation and gives the exception that leaves it (if any), its events and the state
  it leaves behind. An exception thrown to the host leaves the endpoint in use, so a
  run goes on after it with the state the operation left. A null dereference ends
  the process; letting the run go on after it only adds behaviours to the model.
\<close>

datatype 'd operation =
    Subscribe string string nat yaml
  | CreateClientProxy string string string nat yaml
  | CreateClientProxyServiceType string string nat yaml
  | CreateServiceProxy string string string yaml
  | CreateServiceProxyServiceType string string yaml
  | StartupAdvertisement string string string yaml
  | Publish string 'd
  | CallService string 'd nat nat
  | Reply CallHandle 'd
  | TopicAdvertisement string string string connection_handle
  | TopicUnadvertisement string string connection_handle
  | Publication string 'd connection_handle
  | SubscribeRequest string "string option" string connection_handle
  | UnsubscribeRequest string string connection_handle
  | ServiceRequest string 'd string connection_handle
  | ServiceAdvertisement string string string connection_handle
  | ServiceUnadvertisement string connection_handle
  | ServiceResponse string 'd string connection_handle
  | ConnectionOpened connection_handle
  | ConnectionClosed connection_handle
  | SpinOnce bool bool "connection_handle option"
  | RuntimeAdvertisement string string string yaml

fun step ::
  "'d encoding \<Rightarrow> transport \<Rightarrow> 'd converter \<Rightarrow> 'd operation \<Rightarrow> endpoint
    \<Rightarrow> exception option \<times> 'd event list \<times> endpoint" where
  "step enc sf cv (Subscribe t ty cb cfg) e = (None, snd (subscribe enc t ty cb cfg e))"
| "step enc sf cv (CreateClientProxy s rq rp cb cfg) e =
     (None, snd (create_client_proxy enc s rq rp cb cfg e))"
| "step enc sf cv (CreateClientProxyServiceType s ty cb cfg) e =
     (None, snd (create_client_proxy_service_type s ty cb cfg e))"
| "step enc sf cv (CreateServiceProxy s rq rp cfg) e = (None, create_service_proxy s rq rp cfg e)"
| "step enc sf cv (CreateServiceProxyServiceType s ty cfg) e =
     (None, create_service_proxy_service_type s ty cfg e)"
| "step enc sf cv (StartupAdvertisement t ty i cfg) e =
     (None, [], startup_advertisement enc t ty i cfg e)"
| "step enc sf cv (Publish t m) e =
     (case publish enc sf t m e of
        (Inl ex, evs) \<Rightarrow> (Some ex, evs, e)
      | (Inr ok, evs) \<Rightarrow> (None, evs, e))"
| "step enc sf cv (CallService s rq cl ch) e = call_service enc sf s rq cl ch e"
| "step enc sf cv (Reply ch r) e = (None, receive_response enc sf ch r, e)"
| "step enc sf cv (TopicAdvertisement t ty i h) e = (None, receive_topic_advertisement_ws t ty i h e)"
| "step enc sf cv (TopicUnadvertisement t i h) e = (None, receive_topic_unadvertisement_ws t i h e)"
| "step enc sf cv (Publication t m h) e = (None, receive_publication_ws t m h e, e)"
| "step enc sf cv (SubscribeRequest t ty i h) e = receive_subscribe_request_ws t ty i h e"
| "step enc sf cv (UnsubscribeRequest t i h) e = (None, receive_unsubscribe_request_ws t i h e)"
| "step enc sf cv (ServiceRequest s rq i h) e = (None, receive_service_request_ws cv s rq i h e, e)"
| "step enc sf cv (ServiceAdvertisement s rq rp h) e =
     (None, receive_service_advertisement_ws s rq rp h e)"
| "step enc sf cv (ServiceUnadvertisement s h) e = (None, receive_service_unadvertisement_ws s h e)"
| "step enc sf cv (ServiceResponse s r i h) e = (None, receive_service_response_ws cv s r i h e)"
| "step enc sf cv (ConnectionOpened h) e = (None, notify_connection_opened h e, e)"
| "step enc sf cv (ConnectionClosed h) e = (None, notify_connection_closed h e)"
| "step enc sf cv (SpinOnce closed elapsed fresh) e = (None, snd (spin_once closed elapsed fresh e))"
| "step enc sf cv (RuntimeAdvertisement t ty i cfg) e =
     (None, runtime_advertisement enc t ty i cfg e, e)"

text \<open>The state after a sequence of operations, and the events of the sequence in order.\<close>

fun run ::
  "'d encoding \<Rightarrow> transport \<Rightarrow> 'd converter \<Rightarrow> 'd operation list \<Rightarrow> endpoint \<Rightarrow> endpoint" where
  "run enc sf cv [] e = e"
| "run enc sf cv (x # xs) e = run enc sf cv xs (snd (snd (step enc sf cv x e)))"


text \<open>The ids taken by the invocations of \<^verbatim>\<open>call_service\<close> in a sequence, in order.\<close>

fun is_call_service :: "'d operation \<Rightarrow> bool" where
  "is_call_service (CallService s rq cl ch) = True"
| "is_call_service x = False"

fun call_ids ::
  "'d encoding \<Rightarrow> transport \<Rightarrow> 'd converter \<Rightarrow> 'd operation list \<Rightarrow> endpoint \<Rightarrow> string list" where
  "call_ids enc sf cv [] e = []"
| "call_ids enc sf cv (x # xs) e =
     (if is_call_service x then [allocated_id e] else []) @
     call_ids enc sf cv xs (snd (snd (step enc sf cv x e)))"

text \<open>
  The type declared by the last advertisement of topic \<open>T\<close> from connection \<open>C\<close> in
  a sequence of operations, if there is one.
\<close>

fun is_topic_advertisement :: "'d operation \<Rightarrow> bool" where
  "is_topic_advertisement (TopicAdvertisement t ty i h) = True"
| "is_topic_advertisement x = False"

fun advertised_type :: "string \<Rightarrow> connection_handle \<Rightarrow> 'd operation \<Rightarrow> string option" where
  "advertised_type T C (TopicAdvertisement t ty i h) = (if t = T \<and> h = C then Some ty else None)"
| "advertised_type T C x = None"

fun last_advertised_type :: "string \<Rightarrow> connection_handle \<Rightarrow> 'd operation list \<Rightarrow> string option" where
  "last_advertised_type T C [] = None"
| "last_advertised_type T C (x # xs) =
     (case last_advertised_type T C xs of
        Some ty \<Rightarrow> Some ty
      | None \<Rightarrow> advertised_type T C x)"


fun is_send_to :: "connection_handle \<Rightarrow> 'd event \<Rightarrow> bool" where
  "is_send_to h (Send c p) = (c = h)"
| "is_send_to h x = False"

fun is_send :: "'d event \<Rightarrow> bool" where
  "is_send (Send c p) = True"
| "is_send x = False"




text \<open>Sample collaborators for the closed examples.\<close>

definition sample_encoding :: "string encoding" where
  "sample_encoding =
    \<lparr> encode_publication_msg = (\<lambda>topic ty ident msg. if msg = [] then [] else ''publish '' @ topic @ '' '' @ msg),
      encode_subscribe_msg = (\<lambda>topic ty ident cfg. ''subscribe '' @ topic),
      encode_advertise_msg = (\<lambda>topic ty ident cfg. ''advertise '' @ topic),
      encode_advertise_service_msg = (\<lambda>service req reply ident cfg. ''advertise_service '' @ service),
      encode_call_service_msg = (\<lambda>service req request ident cfg. ''call_service '' @ service @ '' '' @ ident),
      encode_service_response_msg = (\<lambda>service reply ident response ok. ''service_response '' @ ident) \<rparr>"

definition sample_transport :: transport where
  "sample_transport h payload = False"

definition sample_converter :: "string converter" where
  "sample_converter d = (if d = ''unsupported'' then Inl UnsupportedType else Inr d)"

text \<open>The events that are calls of a service client, and a state with one pending call.\<close>

fun is_client_callback :: "'d event \<Rightarrow> bool" where
  "is_client_callback (ClientReceiveResponse cl ch r) = True"
| "is_client_callback x = False"

definition pending_call :: endpoint where
  "pending_call = Endpoint\<lparr>service_request_info := [''1'' \<mapsto> \<lparr>client = 7, call_handle = 9\<rparr>]\<rparr>"

text \<open>
  A state with one subscription (two connections blacklisted), one published topic
  with two listener connections, one provider and one pending call.
\<close>

definition two_topics :: endpoint where
  "two_topics =
     Endpoint\<lparr>
       topic_subscribe_info := [''chat'' \<mapsto> \<lparr>sub_type = ''Str'', sub_callback = 1, blacklist = {3, 5}\<rparr>],
       topic_publish_info :=
         [''odom'' \<mapsto> \<lparr>pub_type = ''Pose'',
                       listeners = DAList.update 3 {''a''} (DAList.update 5 {''b''} DAList.empty)\<rparr>],
       service_provider_info :=
         [''add'' \<mapsto> \<lparr>sp_req_type = ''Pair'', sp_reply_type = ''Int'',
                      sp_connection_handle = Some 3, sp_configuration = YNull\<rparr>],
       service_request_info := [''1'' \<mapsto> \<lparr>client = 7, call_handle = 9\<rparr>]\<rparr>"

text \<open>A state that advertises one topic and has no listener yet.\<close>

definition advertised_odom :: endpoint where
  "advertised_odom =
     Endpoint\<lparr>topic_publish_info := [''odom'' \<mapsto> \<lparr>pub_type = ''Pose'', listeners = DAList.empty\<rparr>]\<rparr>"

text \<open>The endpoint after its first registration: a subscription to \<open>chat\<close> of type \<open>Str\<close>.\<close>

definition subscribed_chat :: endpoint where
  "subscribed_chat = snd (snd (subscribe sample_encoding ''chat'' ''Str'' 1 YNull Endpoint))"



section \<open>Properties\<close>

subsection \<open>Decimal ids\<close>

lemma digit_val_digit_char: "d < 10 \<Longrightarrow> digit_val (digit_char d) = d"
proof -
  assume "d < 10"
  then have "d \<in> {0, 1, 2, 3, 4, 5, 6, 7, 8, 9}" by auto
  then show ?thesis
    by (auto simp: digit_val_def digit_char_def)
qed

lemma of_string_snoc: "of_string (s @ [c]) = 10 * of_string s + digit_val c"
  by (simp add: of_string_def)

lemma of_string_to_string: "of_string (to_string n) = n"
proof (induction n rule: to_string.induct)
  case (1 n)
  show ?case
  proof (cases "n < 10")
    case True
    then show ?thesis
      by (subst to_string.simps) (simp add: of_string_def digit_val_digit_char)
  next
    case False
    with 1 have ih: "of_string (to_string (n div 10)) = n div 10" by simp
    show ?thesis
      using False by (subst to_string.simps) (simp add: of_string_snoc ih digit_val_digit_char)
  qed
qed

lemma to_string_inj: "to_string m = to_string n \<longleftrightarrow> m = n"
  by (metis of_string_to_string)

subsection \<open>Service calls without a provider\<close>

text \<open>
  C9. When the service has no provider entry, \<open>call_service\<close> has already taken an id
  and stored the ledger entry under it when the provider lookup throws: the exception
  leaves the operation with the counter incremented and the new entry in the ledger,
  so the state is not the one before the call.
\<close>

theorem call_service_unknown_service:
  assumes "service_provider_info e service = None"
  shows "call_service enc send_fails service request cl ch e =
           (Some OutOfRange, [],
            e\<lparr>next_service_call_id := next_service_call_id e + 1,
              service_request_info := (service_request_info e)
                (to_string (unat (next_service_call_id e)) \<mapsto> \<lparr>client = cl, call_handle = ch\<rparr>)\<rparr>)
         \<and> snd (snd (call_service enc send_fails service request cl ch e)) \<noteq> e"
proof -
  let ?e' = "e\<lparr>next_service_call_id := next_service_call_id e + 1,
              service_request_info := (service_request_info e)
                (to_string (unat (next_service_call_id e)) \<mapsto> \<lparr>client = cl, call_handle = ch\<rparr>)\<rparr>"
  have eq: "call_service enc send_fails service request cl ch e = (Some OutOfRange, [], ?e')"
    using assms by (simp add: call_service_def Let_def)
  have "next_service_call_id ?e' \<noteq> next_service_call_id e" by simp
  then have "?e' \<noteq> e" by metis
  with eq show ?thesis by simp
qed

theorem call_service_unknown_service_witness:
  "service_provider_info Endpoint ''add'' = None \<and>
   call_service sample_encoding sample_transport ''add'' ''3'' 7 9 Endpoint =
     (Some OutOfRange, [],
      Endpoint\<lparr>next_service_call_id := 2,
        service_request_info := [''1'' \<mapsto> \<lparr>client = 7, call_handle = 9\<rparr>]\<rparr>)"
proof -
  have h: "service_provider_info Endpoint ''add'' = None" by (simp add: Endpoint_def)
  have n: "next_service_call_id Endpoint = 1" by (simp add: Endpoint_def)
  have l: "service_request_info Endpoint = Map.empty" by (simp add: Endpoint_def)
  have s: "to_string (Suc 0) = ''1''" by (simp add: to_string.simps digit_char_def)
  show ?thesis
    using call_service_unknown_service [OF h, of sample_encoding sample_transport "''3''" 7 9] h
    by (simp add: n l s)
qed

subsection \<open>Service responses\<close>

text \<open>
  C1, as amended. A response whose id is in the ledger and whose value converts to
  JSON calls the recorded client exactly once, with that response, and erases the
  entry. A response whose id is in the ledger but whose conversion throws is logged
  as an error and dropped: no call, the state unchanged. A response with an unknown
  id is logged as an error: no call, the state unchanged.
\<close>

theorem receive_service_response_ws_ledger:
  fixes convert :: "'d converter"
  shows
  "(\<forall>info json. service_request_info e ident = Some info \<and> convert response = Inr json \<longrightarrow>
      filter is_client_callback (fst (receive_service_response_ws convert service response ident h e))
        = [ClientReceiveResponse (client info) (call_handle info) response] \<and>
      snd (receive_service_response_ws convert service response ident h e)
        = e\<lparr>service_request_info := (service_request_info e)(ident := None)\<rparr>) \<and>
   (\<forall>info ex. service_request_info e ident = Some info \<and> convert response = Inl ex \<longrightarrow>
      receive_service_response_ws convert service response ident h e = ([Log ERROR], e)) \<and>
   (service_request_info e ident = None \<longrightarrow>
      receive_service_response_ws convert service response ident h e = ([Log ERROR], e))"
  by (simp add: receive_service_response_ws_def)

theorem receive_service_response_ws_ledger_witness:
  "service_request_info pending_call ''1'' = Some \<lparr>client = 7, call_handle = 9\<rparr> \<and>
   sample_converter ''3'' = Inr ''3'' \<and>
   filter is_client_callback
     (fst (receive_service_response_ws sample_converter ''add'' ''3'' ''1'' 4 pending_call))
     = [ClientReceiveResponse 7 9 ''3''] \<and>
   service_request_info
     (snd (receive_service_response_ws sample_converter ''add'' ''3'' ''1'' 4 pending_call)) ''1'' = None \<and>
   service_request_info pending_call ''999'' = None \<and>
   receive_service_response_ws sample_converter ''add'' ''3'' ''999'' 4 pending_call
     = ([Log ERROR], pending_call)"
proof -
  have a: "service_request_info pending_call ''1'' = Some \<lparr>client = 7, call_handle = 9\<rparr>"
    by (simp add: pending_call_def)
  have b: "sample_converter ''3'' = Inr ''3''"
    by (simp add: sample_converter_def)
  have c: "service_request_info pending_call ''999'' = None"
    by (simp add: pending_call_def)
  note t1 = receive_service_response_ws_ledger
    [of pending_call "''1''" sample_converter "''3''" "''add''" 4]
  note t2 = receive_service_response_ws_ledger
    [of pending_call "''999''" sample_converter "''3''" "''add''" 4]
  from t1 a b have d:
    "filter is_client_callback
       (fst (receive_service_response_ws sample_converter ''add'' ''3'' ''1'' 4 pending_call))
       = [ClientReceiveResponse 7 9 ''3'']"
    "snd (receive_service_response_ws sample_converter ''add'' ''3'' ''1'' 4 pending_call)
       = pending_call\<lparr>service_request_info := (service_request_info pending_call)(''1'' := None)\<rparr>"
    by auto
  from t2 c have e:
    "receive_service_response_ws sample_converter ''add'' ''3'' ''999'' 4 pending_call
       = ([Log ERROR], pending_call)"
    by blast
  show ?thesis using a b c d e by simp
qed

text \<open>
  Without the condition on the conversion the property fails: the id \<open>1\<close> is in the
  ledger, the conversion of the response throws, and the handler calls no client and
  keeps the entry.
\<close>

theorem receive_service_response_ws_conversion_failure:
  "service_request_info pending_call ''1'' = Some \<lparr>client = 7, call_handle = 9\<rparr> \<and>
   filter is_client_callback
     (fst (receive_service_response_ws sample_converter ''add'' ''unsupported'' ''1'' 4 pending_call)) = [] \<and>
   service_request_info
     (snd (receive_service_response_ws sample_converter ''add'' ''unsupported'' ''1'' 4 pending_call)) ''1''
     = Some \<lparr>client = 7, call_handle = 9\<rparr>"
  by (simp add: receive_service_response_ws_def pending_call_def sample_converter_def)

subsection \<open>Closed connections\<close>

text \<open>
  C3. After \<open>notify_connection_closed\<close> for a handle \<open>H\<close>, no subscribe entry has
  \<open>H\<close> in its blacklist, no publish entry has \<open>H\<close> as a key of its listener map, no
  provider entry has \<open>H\<close> as its connection, and the call ledger is the one before the
  event.
\<close>

theorem notify_connection_closed_removes_handle:
  fixes e :: endpoint
  shows
  "(\<forall>T info. topic_subscribe_info (snd (notify_connection_closed H e)) T = Some info
       \<longrightarrow> H \<notin> blacklist info) \<and>
   (\<forall>T info. topic_publish_info (snd (notify_connection_closed H e)) T = Some info
       \<longrightarrow> H \<notin> fst ` set (DAList.impl_of (listeners info))) \<and>
   (\<forall>S info. service_provider_info (snd (notify_connection_closed H e)) S = Some info
       \<longrightarrow> sp_connection_handle info \<noteq> Some H) \<and>
   service_request_info (snd (notify_connection_closed H e)) = service_request_info e"
  by (auto simp: notify_connection_closed_def DAList.delete.rep_eq AList.delete_eq
      split: option.splits if_splits)


theorem notify_connection_closed_removes_handle_witness:
  "topic_subscribe_info (snd (notify_connection_closed 3 two_topics :: string event list \<times> endpoint)) ''chat''
     = Some \<lparr>sub_type = ''Str'', sub_callback = 1, blacklist = {5}\<rparr> \<and>
   3 \<notin> blacklist \<lparr>sub_type = ''Str'', sub_callback = 1, blacklist = {5}\<rparr> \<and>
   map_option (\<lambda>i. DAList.impl_of (listeners i))
     (topic_publish_info (snd (notify_connection_closed 3 two_topics :: string event list \<times> endpoint)) ''odom'')
     = Some [(5, {''b''})] \<and>
   service_provider_info (snd (notify_connection_closed 3 two_topics :: string event list \<times> endpoint)) ''add''
     = None \<and>
   service_request_info (snd (notify_connection_closed 3 two_topics :: string event list \<times> endpoint))
     = service_request_info two_topics"
proof -
  let ?e = "snd (notify_connection_closed 3 two_topics :: string event list \<times> endpoint)"
  let ?i = "\<lparr>sub_type = ''Str'', sub_callback = 1, blacklist = {5}\<rparr>"
  have a: "topic_subscribe_info ?e ''chat'' = Some ?i"
    by (auto simp add: notify_connection_closed_def two_topics_def)
  have c: "map_option (\<lambda>i. DAList.impl_of (listeners i)) (topic_publish_info ?e ''odom'')
             = Some [(5, {''b''})]"
    by (simp add: notify_connection_closed_def two_topics_def DAList.delete.rep_eq
        DAList.update.rep_eq DAList.empty.rep_eq AList.delete_eq)
  have d: "service_provider_info ?e ''add'' = None"
    by (simp add: notify_connection_closed_def two_topics_def)
  note t = notify_connection_closed_removes_handle [of 3 two_topics, where ?'a = string]
  from t a have b: "3 \<notin> blacklist ?i" by blast
  from t have f: "service_request_info ?e = service_request_info two_topics" by blast
  from a b c d f show ?thesis by blast
qed

subsection \<open>Publishing\<close>

lemma publish_loop_count:
  assumes "distinct (map fst xs)"
  shows "length (filter (is_send_to c)
           (concat (map (\<lambda>v. publish_listener enc sf T info m (fst v)) xs)))
         = (if c \<in> fst ` set xs \<and> encode_publication_msg enc T (pub_type info) [] m \<noteq> [] then 1 else 0)"
  using assms
  by (induction xs) (auto simp: publish_listener_def Let_def)

lemma publish_loop_sends:
  "filter is_send (concat (map (\<lambda>v. publish_listener enc sf T info m (fst v)) xs))
    = (if encode_publication_msg enc T (pub_type info) [] m = [] then []
       else map (\<lambda>v. Send (fst v) (encode_publication_msg enc T (pub_type info) [] m)) xs)"
  by (induction xs) (auto simp: publish_listener_def Let_def)

lemma publish_loop_error:
  "Log ERROR \<in> set (concat (map (\<lambda>v. publish_listener enc sf T info m (fst v)) xs))
    \<Longrightarrow> encode_publication_msg enc T (pub_type info) [] m \<noteq> []"
  by (induction xs) (auto simp: publish_listener_def Let_def split: if_splits)

text \<open>
  C4. For a topic \<open>T\<close> with a publish entry, \<open>publish\<close> returns success, and the
  number of frames it sends on a connection \<open>c\<close> is one when \<open>c\<close> is a key of the
  listener map and the encoding of the value is not empty, and zero otherwise. Every
  frame sent is that encoding. An empty encoding sends nothing and logs no error; an
  empty listener map produces no event at all.
\<close>

theorem publish_one_send_per_listener:
  assumes "topic_publish_info e T = Some info"
  shows
  "fst (publish enc sf T v e) = Inr True \<and>
   (\<forall>c. length (filter (is_send_to c) (snd (publish enc sf T v e)))
          = (if c \<in> fst ` set (DAList.impl_of (listeners info)) \<and>
                encode_publication_msg enc T (pub_type info) [] v \<noteq> [] then 1 else 0)) \<and>
   filter is_send (snd (publish enc sf T v e))
     = (if encode_publication_msg enc T (pub_type info) [] v = [] then []
        else map (\<lambda>l. Send (fst l) (encode_publication_msg enc T (pub_type info) [] v))
               (DAList.impl_of (listeners info))) \<and>
   (encode_publication_msg enc T (pub_type info) [] v = [] \<longrightarrow>
      Log ERROR \<notin> set (snd (publish enc sf T v e))) \<and>
   (DAList.impl_of (listeners info) = [] \<longrightarrow> snd (publish enc sf T v e) = [])"
proof -
  let ?xs = "DAList.impl_of (listeners info)"
  let ?body = "concat (map (\<lambda>l. publish_listener enc sf T info v (fst l)) ?xs)"
  have d: "distinct (map fst ?xs)" by simp
  have evs: "snd (publish enc sf T v e) = ?body"
    using assms by (simp add: publish_def)
  have r: "fst (publish enc sf T v e) = Inr True"
    using assms by (simp add: publish_def)
  have c1: "\<forall>c. length (filter (is_send_to c) ?body)
          = (if c \<in> fst ` set ?xs \<and>
                encode_publication_msg enc T (pub_type info) [] v \<noteq> [] then 1 else 0)"
    by (simp add: publish_loop_count [OF d])
  have c2: "filter is_send ?body
     = (if encode_publication_msg enc T (pub_type info) [] v = [] then []
        else map (\<lambda>l. Send (fst l) (encode_publication_msg enc T (pub_type info) [] v)) ?xs)"
    by (rule publish_loop_sends)
  have c3: "encode_publication_msg enc T (pub_type info) [] v = [] \<longrightarrow> Log ERROR \<notin> set ?body"
    using publish_loop_error [of enc sf T info v ?xs] by auto
  have c4: "?xs = [] \<longrightarrow> ?body = []" by simp
  show ?thesis
    unfolding evs using r c1 c2 c3 c4 by blast
qed


theorem publish_one_send_per_listener_witness:
  "topic_publish_info two_topics ''odom''
     = Some \<lparr>pub_type = ''Pose'',
              listeners = DAList.update 3 {''a''} (DAList.update 5 {''b''} DAList.empty)\<rparr> \<and>
   fst (publish sample_encoding sample_transport ''odom'' ''hello'' two_topics) = Inr True \<and>
   filter is_send (snd (publish sample_encoding sample_transport ''odom'' ''hello'' two_topics))
     = [Send 5 ''publish odom hello'', Send 3 ''publish odom hello''] \<and>
   length (filter (is_send_to 3) (snd (publish sample_encoding sample_transport ''odom'' ''hello'' two_topics))) = 1 \<and>
   length (filter (is_send_to 4) (snd (publish sample_encoding sample_transport ''odom'' ''hello'' two_topics))) = 0"
proof -
  let ?info = "\<lparr>pub_type = ''Pose'',
              listeners = DAList.update 3 {''a''} (DAList.update 5 {''b''} DAList.empty)\<rparr>"
  let ?evs = "snd (publish sample_encoding sample_transport ''odom'' ''hello'' two_topics)"
  have h: "topic_publish_info two_topics ''odom'' = Some ?info"
    by (simp add: two_topics_def)
  have l: "DAList.impl_of (listeners ?info) = [(5, {''b''}), (3, {''a''})]"
    by (simp add: DAList.update.rep_eq DAList.empty.rep_eq)
  have p: "encode_publication_msg sample_encoding ''odom'' (pub_type ?info) [] ''hello''
             = ''publish odom hello''"
    by (simp add: sample_encoding_def)
  note t = publish_one_send_per_listener [OF h, of sample_encoding sample_transport "''hello''"]
  from t have r: "fst (publish sample_encoding sample_transport ''odom'' ''hello'' two_topics) = Inr True"
    by blast
  from t have s: "filter is_send ?evs
     = (if encode_publication_msg sample_encoding ''odom'' (pub_type ?info) [] ''hello'' = [] then []
        else map (\<lambda>l. Send (fst l) (encode_publication_msg sample_encoding ''odom'' (pub_type ?info) [] ''hello''))
               (DAList.impl_of (listeners ?info)))"
    by blast
  have s': "filter is_send ?evs = [Send 5 ''publish odom hello'', Send 3 ''publish odom hello'']"
    unfolding s l p by simp
  from t have c: "\<And>c. length (filter (is_send_to c) ?evs)
          = (if c \<in> fst ` set (DAList.impl_of (listeners ?info)) \<and>
                encode_publication_msg sample_encoding ''odom'' (pub_type ?info) [] ''hello'' \<noteq> [] then 1 else 0)"
    by blast
  have c3: "length (filter (is_send_to 3) ?evs) = 1"
    unfolding c l p by simp
  have c4: "length (filter (is_send_to 4) ?evs) = 0"
    unfolding c l p by simp
  from h r s' c3 c4 show ?thesis by blast
qed

subsection \<open>Subscription requests\<close>

text \<open>
  The three cases in which the handler returns: a topic without an entry (the entry is
  created and the listener recorded), a request whose type differs from the published
  one (ignored), and a request whose type is the published one (listener recorded).
\<close>

lemma receive_subscribe_request_ws_cases:
  fixes e :: endpoint
  shows
  "(topic_publish_info e T = None \<longrightarrow>
      (receive_subscribe_request_ws T mt i h e :: exception option \<times> 'd event list \<times> endpoint)
        = (None, [Log WARN],
           e\<lparr>topic_publish_info := (topic_publish_info e)
                (T \<mapsto> \<lparr>pub_type = [],
                        listeners = DAList.map_default h {i} (insert i) DAList.empty\<rparr>)\<rparr>)) \<and>
   (\<forall>info t. topic_publish_info e T = Some info \<and> mt = Some t \<and> t \<noteq> pub_type info \<longrightarrow>
      (receive_subscribe_request_ws T mt i h e :: exception option \<times> 'd event list \<times> endpoint)
        = (None, [Log ERROR], e)) \<and>
   (\<forall>info. topic_publish_info e T = Some info \<and> mt = Some (pub_type info) \<longrightarrow>
      (receive_subscribe_request_ws T mt i h e :: exception option \<times> 'd event list \<times> endpoint)
        = (None, [Log DEBUG],
           e\<lparr>topic_publish_info := (topic_publish_info e)
                (T \<mapsto> info\<lparr>listeners :=
                        DAList.map_default h {i} (insert i) (listeners info)\<rparr>)\<rparr>))"
  by (simp add: receive_subscribe_request_ws_def Let_def)

text \<open>
  C8, at its failing input. The topic \<open>odom\<close> has a publish entry and the request
  carries no type: the handler does not add the listener, it dereferences the null
  type pointer in its debug line.
\<close>

theorem receive_subscribe_request_ws_untyped_existing:
  "receive_subscribe_request_ws ''odom'' None ''sub1'' 3 advertised_odom
     = (Some NullPointerDereference, ([] :: string event list), advertised_odom)"
  by (simp add: receive_subscribe_request_ws_def advertised_odom_def Let_def)


text \<open>
  C10. \<open>receive_subscribe_request_ws\<close> dereferences a null pointer exactly when the
  topic already has a publish entry and the request carries no type; it returns
  normally exactly when a request for a topic with an entry carries a type.
\<close>

theorem receive_subscribe_request_ws_null_dereference:
  fixes e :: endpoint
  shows
  "(fst (receive_subscribe_request_ws T mt i h e :: exception option \<times> 'd event list \<times> endpoint)
      = Some NullPointerDereference
    \<longleftrightarrow> topic_publish_info e T \<noteq> None \<and> mt = None) \<and>
   (fst (receive_subscribe_request_ws T mt i h e :: exception option \<times> 'd event list \<times> endpoint) = None
    \<longleftrightarrow> (topic_publish_info e T \<noteq> None \<longrightarrow> mt \<noteq> None))"
  by (auto simp: receive_subscribe_request_ws_def Let_def split: option.splits)


theorem receive_subscribe_request_ws_null_dereference_witness:
  "topic_publish_info advertised_odom ''odom'' \<noteq> None \<and>
   fst (receive_subscribe_request_ws ''odom'' None ''sub1'' 3 advertised_odom
         :: exception option \<times> string event list \<times> endpoint) = Some NullPointerDereference \<and>
   fst (receive_subscribe_request_ws ''odom'' (Some ''Pose'') ''sub1'' 3 advertised_odom
         :: exception option \<times> string event list \<times> endpoint) = None \<and>
   topic_publish_info advertised_odom ''scan'' = None \<and>
   fst (receive_subscribe_request_ws ''scan'' None ''sub1'' 3 advertised_odom
         :: exception option \<times> string event list \<times> endpoint) = None"
proof -
  have a: "topic_publish_info advertised_odom ''odom'' \<noteq> None"
    by (simp add: advertised_odom_def)
  have b: "topic_publish_info advertised_odom ''scan'' = None"
    by (simp add: advertised_odom_def)
  note t1 = receive_subscribe_request_ws_null_dereference
    [of "''odom''" None "''sub1''" 3 advertised_odom, where ?'d = string]
  note t2 = receive_subscribe_request_ws_null_dereference
    [of "''odom''" "Some ''Pose''" "''sub1''" 3 advertised_odom, where ?'d = string]
  note t3 = receive_subscribe_request_ws_null_dereference
    [of "''scan''" None "''sub1''" 3 advertised_odom, where ?'d = string]
  from t1 a have c: "fst (receive_subscribe_request_ws ''odom'' None ''sub1'' 3 advertised_odom
         :: exception option \<times> string event list \<times> endpoint) = Some NullPointerDereference"
    by blast
  from t2 have d: "fst (receive_subscribe_request_ws ''odom'' (Some ''Pose'') ''sub1'' 3 advertised_odom
         :: exception option \<times> string event list \<times> endpoint) = None"
    by simp
  from t3 b have e: "fst (receive_subscribe_request_ws ''scan'' None ''sub1'' 3 advertised_odom
         :: exception option \<times> string event list \<times> endpoint) = None"
    by blast
  from a b c d e show ?thesis by blast
qed

subsection \<open>Topic advertisements and the blacklist\<close>

text \<open>A first subscription to a topic creates its entry with an empty blacklist.\<close>

lemma subscribe_fresh_blacklist:
  assumes "topic_subscribe_info e T = None"
  shows "topic_subscribe_info (snd (snd (subscribe enc T ty cb cfg e))) T
           = Some \<lparr>sub_type = ty, sub_callback = cb, blacklist = {}\<rparr>"
  using assms by (simp add: subscribe_def)

lemma receive_topic_advertisement_ws_blacklist:
  assumes "topic_subscribe_info e T = Some info"
  shows "\<exists>info'. topic_subscribe_info
             (snd (receive_topic_advertisement_ws t ty i c e :: 'd event list \<times> endpoint)) T = Some info' \<and>
           sub_type info' = sub_type info \<and>
           (C \<in> blacklist info' \<longleftrightarrow>
              (case advertised_type T C (TopicAdvertisement t ty i c) of
                 None \<Rightarrow> C \<in> blacklist info
               | Some ty' \<Rightarrow> ty' \<noteq> sub_type info))"
proof (cases "t = T")
  case True
  show ?thesis
  proof (cases "ty \<noteq> sub_type info")
    case True
    with \<open>t = T\<close> assms show ?thesis
      by (simp add: receive_topic_advertisement_ws_def)
  next
    case False
    with \<open>t = T\<close> assms show ?thesis
      by (simp add: receive_topic_advertisement_ws_def)
  qed
next
  case False
  have "topic_subscribe_info
          (snd (receive_topic_advertisement_ws t ty i c e :: 'd event list \<times> endpoint)) T
          = topic_subscribe_info e T"
    using False by (simp add: receive_topic_advertisement_ws_def split: option.split)
  with False assms show ?thesis by simp
qed

lemma run_topic_advertisements_blacklist:
  fixes enc :: "'d encoding"
  assumes "list_all is_topic_advertisement ops" and "topic_subscribe_info e T = Some info"
  shows "\<exists>info'. topic_subscribe_info (run enc sf cv ops e) T = Some info' \<and>
           sub_type info' = sub_type info \<and>
           (C \<in> blacklist info' \<longleftrightarrow>
              (case last_advertised_type T C ops of
                 None \<Rightarrow> C \<in> blacklist info
               | Some ty \<Rightarrow> ty \<noteq> sub_type info))"
  using assms
proof (induction ops arbitrary: e info)
  case Nil
  then show ?case by simp
next
  case (Cons x xs)
  from Cons.prems(1) obtain t ty i c where x: "x = TopicAdvertisement t ty i c"
    by (cases x) auto
  let ?e1 = "snd (receive_topic_advertisement_ws t ty i c e :: 'd event list \<times> endpoint)"
  from receive_topic_advertisement_ws_blacklist [OF Cons.prems(2), of t ty i c C, where ?'d = 'd]
  obtain info1 where i1: "topic_subscribe_info ?e1 T = Some info1"
    and ty1: "sub_type info1 = sub_type info"
    and b1: "C \<in> blacklist info1 \<longleftrightarrow>
              (case advertised_type T C (TopicAdvertisement t ty i c) of
                 None \<Rightarrow> C \<in> blacklist info
               | Some ty' \<Rightarrow> ty' \<noteq> sub_type info)"
    by blast
  from Cons.prems(1) have xs: "list_all is_topic_advertisement xs" by simp
  from Cons.IH [OF xs i1]
  obtain info' where i': "topic_subscribe_info (run enc sf cv xs ?e1) T = Some info'"
    and ty': "sub_type info' = sub_type info1"
    and b': "C \<in> blacklist info' \<longleftrightarrow>
              (case last_advertised_type T C xs of
                 None \<Rightarrow> C \<in> blacklist info1
               | Some ty \<Rightarrow> ty \<noteq> sub_type info1)"
    by blast
  have r: "run enc sf cv (x # xs) e = run enc sf cv xs ?e1"
    by (simp add: x)
  show ?case
    unfolding r x using i' ty' ty1 b' b1
    by (auto split: option.splits)
qed

text \<open>
  C2. Let the endpoint hold a subscription to \<open>T\<close> whose blacklist does not contain
  \<open>C\<close> (as after \<open>subscribe\<close>, which creates the entry with an empty blacklist).
  After any sequence of topic advertisements the subscription is still there with the
  same expected type, and \<open>C\<close> is in its blacklist if and only if the last
  advertisement of \<open>T\<close> from \<open>C\<close> in the sequence declared another type than the
  expected one; with no such advertisement \<open>C\<close> is not in the blacklist.
\<close>

theorem blacklist_iff_last_advertisement_mismatched:
  assumes "topic_subscribe_info e T = Some info"
    and "C \<notin> blacklist info"
    and "list_all is_topic_advertisement ops"
  shows "\<exists>info'. topic_subscribe_info (run enc sf cv ops e) T = Some info' \<and>
           sub_type info' = sub_type info \<and>
           (C \<in> blacklist info' \<longleftrightarrow>
              (\<exists>ty. last_advertised_type T C ops = Some ty \<and> ty \<noteq> sub_type info))"
proof -
  from run_topic_advertisements_blacklist [OF assms(3) assms(1), of enc sf cv C]
  obtain info' where i': "topic_subscribe_info (run enc sf cv ops e) T = Some info'"
    and ty': "sub_type info' = sub_type info"
    and b': "C \<in> blacklist info' \<longleftrightarrow>
              (case last_advertised_type T C ops of
                 None \<Rightarrow> C \<in> blacklist info
               | Some ty \<Rightarrow> ty \<noteq> sub_type info)"
    by blast
  from b' assms(2) have "C \<in> blacklist info' \<longleftrightarrow>
              (\<exists>ty. last_advertised_type T C ops = Some ty \<and> ty \<noteq> sub_type info)"
    by (cases "last_advertised_type T C ops") auto
  with i' ty' show ?thesis by blast
qed

theorem blacklist_iff_last_advertisement_mismatched_witness:
  "topic_subscribe_info subscribed_chat ''chat''
     = Some \<lparr>sub_type = ''Str'', sub_callback = 1, blacklist = {}\<rparr> \<and>
   list_all is_topic_advertisement
     [TopicAdvertisement ''chat'' ''Int'' [] 2, TopicAdvertisement ''chat'' ''Str'' [] 3 :: string operation] \<and>
   map_option blacklist
     (topic_subscribe_info
        (run sample_encoding sample_transport sample_converter
           [TopicAdvertisement ''chat'' ''Int'' [] 2, TopicAdvertisement ''chat'' ''Str'' [] 3]
           subscribed_chat) ''chat'') = Some {2} \<and>
   (\<exists>info'. topic_subscribe_info
        (run sample_encoding sample_transport sample_converter
           [TopicAdvertisement ''chat'' ''Int'' [] 2, TopicAdvertisement ''chat'' ''Str'' [] 3]
           subscribed_chat) ''chat'' = Some info' \<and> 2 \<in> blacklist info' \<and> 3 \<notin> blacklist info' \<and>
           4 \<notin> blacklist info')"
proof -
  let ?i = "\<lparr>sub_type = ''Str'', sub_callback = 1, blacklist = {}\<rparr>"
  let ?ops = "[TopicAdvertisement ''chat'' ''Int'' [] 2, TopicAdvertisement ''chat'' ''Str'' [] 3 :: string operation]"
  let ?e = "run sample_encoding sample_transport sample_converter ?ops subscribed_chat"
  have a: "topic_subscribe_info subscribed_chat ''chat'' = Some ?i"
    by (simp add: subscribed_chat_def subscribe_def Endpoint_def)
  have l: "list_all is_topic_advertisement ?ops" by simp
  have v: "map_option blacklist (topic_subscribe_info ?e ''chat'') = Some {2}"
    by (simp add: subscribed_chat_def subscribe_def Endpoint_def receive_topic_advertisement_ws_def)
  have n: "\<And>C. C \<notin> blacklist ?i" by simp
  note t = blacklist_iff_last_advertisement_mismatched [OF a n l, of sample_encoding sample_transport sample_converter]
  from t [of 2] obtain i2 where i2: "topic_subscribe_info ?e ''chat'' = Some i2"
    and b2: "2 \<in> blacklist i2 \<longleftrightarrow> (\<exists>ty. last_advertised_type ''chat'' 2 ?ops = Some ty \<and> ty \<noteq> sub_type ?i)"
    by blast
  from t [of 3] i2 have b3: "3 \<in> blacklist i2 \<longleftrightarrow> (\<exists>ty. last_advertised_type ''chat'' 3 ?ops = Some ty \<and> ty \<noteq> sub_type ?i)"
    by auto
  from t [of 4] i2 have b4: "4 \<in> blacklist i2 \<longleftrightarrow> (\<exists>ty. last_advertised_type ''chat'' 4 ?ops = Some ty \<and> ty \<noteq> sub_type ?i)"
    by auto
  from b2 have c2: "2 \<in> blacklist i2" by simp
  from b3 have c3: "3 \<notin> blacklist i2" by simp
  from b4 have c4: "4 \<notin> blacklist i2" by simp
  from a l v i2 c2 c3 c4 show ?thesis by blast
qed

subsection \<open>Service-call ids\<close>

lemma call_service_records_allocated_id:
  "service_request_info (snd (snd (call_service enc sf s rq cl ch e))) (allocated_id e)
     = Some \<lparr>client = cl, call_handle = ch\<rparr> \<and>
   next_service_call_id (snd (snd (call_service enc sf s rq cl ch e))) = next_service_call_id e + 1"
  by (simp add: call_service_def allocated_id_def Let_def split: option.split sum.split)

lemma step_next_service_call_id:
  "next_service_call_id (snd (snd (step enc sf cv x e)))
     = (if is_call_service x then next_service_call_id e + 1 else next_service_call_id e)"
proof (cases x)
  case (Publish t m)
  then show ?thesis by (simp split: prod.split sum.split)
next
  case (CallService s rq cl ch)
  then show ?thesis
    by (simp add: call_service_def Let_def split: option.split sum.split)
next
  case (SubscribeRequest t ty i h)
  then show ?thesis
    by (simp add: receive_subscribe_request_ws_def Let_def split: option.split)
next
  case (UnsubscribeRequest t i h)
  then show ?thesis
    by (simp add: receive_unsubscribe_request_ws_def Let_def split: option.split)
next
  case (ServiceResponse s r i h)
  then show ?thesis
    by (simp add: receive_service_response_ws_def split: option.split sum.split)
qed (simp_all add: subscribe_def create_client_proxy_def create_client_proxy_service_type_def
      create_service_proxy_def create_service_proxy_service_type_def startup_advertisement_def
      receive_topic_advertisement_ws_def receive_topic_unadvertisement_ws_def
      receive_service_advertisement_ws_def receive_service_unadvertisement_ws_def
      notify_connection_closed_def spin_once_def Let_def split: option.split)

lemma call_ids_closed_form:
  "call_ids enc sf cv ops e
     = map (\<lambda>k. to_string (unat (next_service_call_id e + of_nat k)))
         [0 ..< length (filter is_call_service ops)]"
proof (induction ops arbitrary: e)
  case Nil
  show ?case by simp
next
  case (Cons x xs)
  let ?e1 = "snd (snd (step enc sf cv x e))"
  let ?n = "length (filter is_call_service xs)"
  show ?case
  proof (cases "is_call_service x")
    case False
    then show ?thesis
      by (simp add: Cons.IH step_next_service_call_id)
  next
    case True
    have "map (\<lambda>k. to_string (unat (next_service_call_id e + of_nat k))) [0 ..< Suc ?n]
            = to_string (unat (next_service_call_id e)) #
              map (\<lambda>k. to_string (unat (next_service_call_id e + of_nat (Suc k)))) [0 ..< ?n]"
      by (simp only: upt_conv_Cons [of 0 "Suc ?n"] map_Suc_upt [symmetric] list.map map_map o_def)
         simp
    with True show ?thesis
      by (simp add: Cons.IH step_next_service_call_id allocated_id_def add.assoc)
  qed
qed

lemma unat_fresh_counter:
  assumes "k < n" and "n < 2 ^ 64"
  shows "unat ((1 :: 64 word) + of_nat k) = Suc k"
proof -
  have "(1 :: 64 word) + of_nat k = of_nat (Suc k)" by simp
  moreover have "Suc k < 2 ^ 64" using assms by simp
  ultimately show ?thesis
    by (simp only: unat_of_nat) simp
qed

lemma call_ids_fresh:
  assumes "length (filter is_call_service ops) < 2 ^ 64"
  shows "call_ids enc sf cv ops Endpoint
           = map (\<lambda>k. to_string (Suc k)) [0 ..< length (filter is_call_service ops)]"
proof -
  have n: "next_service_call_id Endpoint = 1" by (simp add: Endpoint_def)
  show ?thesis
    unfolding call_ids_closed_form n
    using assms by (auto simp: unat_fresh_counter)
qed

text \<open>
  C5, as amended. The mutex makes the allocation of an id one step, so the
  invocations of \<open>call_service\<close> on one endpoint allocate in some order, whatever
  other operations run in between. In every sequence of operations on a newly
  constructed endpoint that holds fewer than \<open>2 ^ 64\<close> invocations of
  \<open>call_service\<close>, the ids allocated are the decimal strings of \<open>1, 2, 3, ...\<close> in
  this order: their values are strictly increasing and no id string occurs twice.
\<close>

theorem call_ids_strictly_increasing:
  assumes "length (filter is_call_service ops) < 2 ^ 64"
  shows "map of_string (call_ids enc sf cv ops Endpoint)
           = [1 ..< Suc (length (filter is_call_service ops))] \<and>
         sorted_wrt (<) (map of_string (call_ids enc sf cv ops Endpoint)) \<and>
         distinct (call_ids enc sf cv ops Endpoint)"
proof -
  let ?n = "length (filter is_call_service ops)"
  have "map of_string (call_ids enc sf cv ops Endpoint) = map Suc [0 ..< ?n]"
    by (simp add: call_ids_fresh [OF assms] of_string_to_string o_def)
  then have m: "map of_string (call_ids enc sf cv ops Endpoint) = [1 ..< Suc ?n]"
    by (simp add: map_Suc_upt)
  have s: "sorted_wrt (<) (map of_string (call_ids enc sf cv ops Endpoint))"
    unfolding m by (rule sorted_wrt_upt)
  have "distinct (map of_string (call_ids enc sf cv ops Endpoint))"
    unfolding m by (rule distinct_upt)
  then have d: "distinct (call_ids enc sf cv ops Endpoint)"
    by (simp add: distinct_map)
  from m s d show ?thesis by blast
qed

lemma run_calls_next_service_call_id:
  "next_service_call_id (run enc sf cv (replicate n (CallService s rq cl ch)) e)
     = next_service_call_id e + of_nat n"
  by (induction n arbitrary: e) (simp_all add: step_next_service_call_id del: step.simps)

theorem call_ids_strictly_increasing_witness:
  "length (filter is_call_service
      [CallService ''add'' ''3'' 7 9, Publish ''odom'' ''hello'', CallService ''add'' ''4'' 7 10]) < 2 ^ 64 \<and>
   call_ids sample_encoding sample_transport sample_converter
      [CallService ''add'' ''3'' 7 9, Publish ''odom'' ''hello'', CallService ''add'' ''4'' 7 10] Endpoint
     = [''1'', ''2''] \<and>
   map of_string (call_ids sample_encoding sample_transport sample_converter
      [CallService ''add'' ''3'' 7 9, Publish ''odom'' ''hello'', CallService ''add'' ''4'' 7 10] Endpoint)
     = [1, 2] \<and>
   distinct (call_ids sample_encoding sample_transport sample_converter
      [CallService ''add'' ''3'' 7 9, Publish ''odom'' ''hello'', CallService ''add'' ''4'' 7 10] Endpoint)"
proof -
  let ?ops = "[CallService ''add'' ''3'' 7 9, Publish ''odom'' ''hello'', CallService ''add'' ''4'' 7 10]"
  have l: "length (filter is_call_service ?ops) = 2" by simp
  have h: "length (filter is_call_service ?ops) < 2 ^ 64" by simp
  note t = call_ids_strictly_increasing [OF h, of sample_encoding sample_transport sample_converter]
  from t have m: "map of_string (call_ids sample_encoding sample_transport sample_converter ?ops Endpoint)
                    = [1 ..< Suc (length (filter is_call_service ?ops))]"
    by blast
  have m': "map of_string (call_ids sample_encoding sample_transport sample_converter ?ops Endpoint) = [1, 2]"
    unfolding m l by (simp add: upt_rec)
  from t have d: "distinct (call_ids sample_encoding sample_transport sample_converter ?ops Endpoint)"
    by blast
  have s1: "to_string (Suc 0) = ''1''" by (simp add: to_string.simps digit_char_def)
  have s2: "to_string (Suc (Suc 0)) = ''2''" by (simp add: to_string.simps digit_char_def)
  have v: "call_ids sample_encoding sample_transport sample_converter ?ops Endpoint = [''1'', ''2'']"
    unfolding call_ids_fresh [OF h] l by (simp add: upt_rec s1 s2)
  from h v m' d show ?thesis by blast
qed

text \<open>
  Without the bound the property fails: the counter is a 64-bit unsigned value that
  wraps.
  After \<open>2 ^ 64 - 2\<close> invocations on a newly constructed endpoint the next three
  invocations take the ids 18446744073709551615, 0 and 1; the second is smaller than
  the first, and the third is the id the very first invocation took.
\<close>

theorem call_ids_wrap_around:
  "call_ids sample_encoding sample_transport sample_converter
      (replicate 3 (CallService ''add'' ''3'' 7 9))
      (run sample_encoding sample_transport sample_converter
         (replicate (2 ^ 64 - 2) (CallService ''add'' ''3'' 7 9)) Endpoint)
     = [''18446744073709551615'', ''0'', ''1''] \<and>
   call_ids sample_encoding sample_transport sample_converter
      [CallService ''add'' ''3'' 7 9] Endpoint = [''1'']"
proof -
  let ?c = "CallService ''add'' ''3'' 7 9 :: string operation"
  let ?e = "run sample_encoding sample_transport sample_converter (replicate (2 ^ 64 - 2) ?c) Endpoint"
  have n: "next_service_call_id ?e = - 1"
    unfolding run_calls_next_service_call_id by (simp add: Endpoint_def)
  have u: "unat (- 1 :: 64 word) = 18446744073709551615" by (simp add: unsigned_minus_1_eq_mask mask_eq_exp_minus_1)
  have s0: "to_string 0 = ''0''" by (simp add: to_string.simps digit_char_def)
  have s1: "to_string (Suc 0) = ''1''" by (simp add: to_string.simps digit_char_def)
  have sm: "to_string 18446744073709551615 = ''18446744073709551615''"
    by (simp add: to_string.simps digit_char_def)
  have a: "call_ids sample_encoding sample_transport sample_converter (replicate 3 ?c) ?e
             = [''18446744073709551615'', ''0'', ''1'']"
    unfolding call_ids_closed_form n by (simp add: upt_rec u s0 s1 sm)
  have b: "call_ids sample_encoding sample_transport sample_converter [?c] Endpoint = [''1'']"
    unfolding call_ids_closed_form by (simp add: Endpoint_def s1)
  from a b show ?thesis by blast
qed


subsection \<open>Opened connections\<close>


















subsection \<open>Configuration of the port\<close>

lemma decimal_int_abc: "decimal_int ''abc'' = None"
  by (simp add: decimal_int_def)

lemma decimal_int_8080: "decimal_int ''8080'' = Some 8080"
  by (simp add: decimal_int_def of_string_def digit_val_def)

lemma parse_port_bad_conversion:
  assumes "conv s = None"
  shows "parse_port conv (YMap [(''port'', YScalar s)]) = (Inl BadConversion, [])"
  using assms by (simp add: parse_port_def yaml_index_def YamlPortKey_def as_int_def)

text \<open>
  C7, at its failing inputs. With security disabled and a port that is not a number,
  the conversion throws a bad-conversion exception, which the handler in
  \<open>parse_port\<close> (for invalid nodes only) does not catch: the exception leaves
  \<open>parse_port\<close>, \<open>configure_tcp_endpoint\<close> and \<open>configure\<close>. With the port key
  missing, \<open>parse_port\<close> returns \<open>-1\<close> and \<open>configure_tcp_endpoint\<close> the null
  pointer, but \<open>configure\<close> wraps that pointer with \<open>make_shared\<close> and tests the
  wrapper, which is never null: it returns success.
\<close>

theorem configure_port_failures:
  "parse_port decimal_int (YMap [(''security'', YScalar ''none''), (''port'', YScalar ''abc'')])
     = (Inl BadConversion, []) \<and>
   fst (configure_tcp_endpoint decimal_int configure_client
          (YMap [(''security'', YScalar ''none''), (''port'', YScalar ''abc'')]))
     = Inl BadConversion \<and>
   fst (configure (configure_tcp_endpoint decimal_int configure_client) tls_configure True
          (YMap [(''security'', YScalar ''none''), (''port'', YScalar ''abc'')]))
     = Inl BadConversion \<and>
   parse_port decimal_int (YMap [(''security'', YScalar ''none'')]) = (Inr (- 1), [ERROR]) \<and>
   fst (configure_tcp_endpoint decimal_int configure_client (YMap [(''security'', YScalar ''none'')]))
     = Inr None \<and>
   fst (configure (configure_tcp_endpoint decimal_int configure_client) tls_configure True
          (YMap [(''security'', YScalar ''none'')]))
     = Inr True"
proof -
  let ?bad = "YMap [(''security'', YScalar ''none''), (''port'', YScalar ''abc'')]"
  let ?none = "YMap [(''security'', YScalar ''none'')]"
  have p1: "parse_port decimal_int ?bad = (Inl BadConversion, [])"
    by (simp add: parse_port_def yaml_index_def YamlPortKey_def as_int_def decimal_int_abc)
  have p2: "parse_port decimal_int ?none = (Inr (- 1), [ERROR])"
    by (simp add: parse_port_def yaml_index_def YamlPortKey_def)
  have t1: "fst (configure_tcp_endpoint decimal_int configure_client ?bad) = Inl BadConversion"
    by (simp add: configure_tcp_endpoint_def p1)
  have t2: "configure_tcp_endpoint decimal_int configure_client ?none = (Inr None, [ERROR])"
    by (simp add: configure_tcp_endpoint_def p2 word_sless_alt)
  have c1: "fst (configure (configure_tcp_endpoint decimal_int configure_client) tls_configure True ?bad)
              = Inl BadConversion"
    using t1
    by (cases "configure_tcp_endpoint decimal_int configure_client ?bad")
       (simp add: configure_def yaml_index_def YamlEncodingKey_def as_string_def)
  have c2: "fst (configure (configure_tcp_endpoint decimal_int configure_client) tls_configure True ?none)
              = Inr True"
    by (simp add: configure_def yaml_index_def YamlEncodingKey_def as_string_def t2 make_shared_def)
  from p1 p2 t1 t2 c1 c2 show ?thesis by simp
qed

text \<open>For comparison, a configuration with a valid port is accepted.\<close>

lemma configure_valid_port:
  "fst (configure (configure_tcp_endpoint decimal_int (\<lambda>host port cas. True)) tls_configure True
          (YMap [(''security'', YScalar ''none''), (''port'', YScalar ''8080'')]))
     = Inr True \<and>
   fst (configure_tcp_endpoint decimal_int (\<lambda>host port cas. True)
          (YMap [(''security'', YScalar ''none''), (''port'', YScalar ''8080'')]))
     = Inr (Some \<lparr>hostname = ''localhost'', port16 = 8080, jwt_token = None\<rparr>)"
proof -
  let ?cfg = "YMap [(''security'', YScalar ''none''), (''port'', YScalar ''8080'')]"
  have p: "parse_port decimal_int ?cfg = (Inr 8080, [DEBUG])"
    by (simp add: parse_port_def yaml_index_def YamlPortKey_def as_int_def decimal_int_8080)
  have t: "configure_tcp_endpoint decimal_int (\<lambda>host port cas. True) ?cfg
             = (Inr (Some \<lparr>hostname = ''localhost'', port16 = 8080, jwt_token = None\<rparr>), [DEBUG, INFO])"
    by (simp add: configure_tcp_endpoint_def p word_sless_alt parse_hostname_def yaml_index_def
        YamlHostKey_def YamlAuthKey_def DefaultHostname_def)
  have c: "fst (configure (configure_tcp_endpoint decimal_int (\<lambda>host port cas. True)) tls_configure True ?cfg)
              = Inr True"
    by (simp add: configure_def yaml_index_def YamlEncodingKey_def as_string_def t make_shared_def)
  from t c show ?thesis by simp
qed

end
